theory Spec2Isabelle
  imports Complex_Main "HOL-Library.Word"
begin

section \<open>pystockwatch: percent change, volume change and the profit comparison table\<close>

text \<open>
  A shallow embedding of \<^verbatim>\<open>src/pystockwatch/pystockwatch.py\<close>. The three functions
  \<^verbatim>\<open>percent_change\<close>, \<^verbatim>\<open>profit_viz\<close> and \<^verbatim>\<open>volume_change\<close> validate their
  arguments, call the market-data provider (yfinance) and transform the table that comes
  back. The provider is a parameter of the model; every call that goes to it over the
  network is written to a log, so that the order of validation and network traffic can be
  stated. Every \<^verbatim>\<open>raise\<close> of the source is a value \<open>Inl e\<close>.
\<close>

subsection \<open>Python values and exceptions\<close>

text \<open>
  The ticker arguments are dynamically typed: \<^verbatim>\<open>profit_viz\<close> tests \<^verbatim>\<open>type(stock_ticker) != str\<close>.
  The date arguments are strings (the documented parameter type).
\<close>

datatype pyval = Str string | IntVal int | NoneVal

definition is_str :: "pyval \<Rightarrow> bool" where
  "is_str v = (case v of Str _ \<Rightarrow> True | _ \<Rightarrow> False)"

text \<open>
  The exceptions this file raises itself carry their message. An exception raised inside
  the provider library is kept apart as \<open>ProviderError cls msg\<close>, \<open>cls\<close> being the
  name of its class, so that an \<^verbatim>\<open>except\<close> clause can still match it by class.
  \<open>IndexError\<close> is what \<^verbatim>\<open>DataFrame.iloc\<close> raises out of bounds, \<open>UnboundLocalError\<close>
  what reading a local variable that was never assigned raises.
\<close>

datatype pyerror =
    NameError string
  | ValueError string
  | TypeError string
  | IndexError string
  | UnboundLocalError string
  | ProviderError string string

definition exn_class :: "pyerror \<Rightarrow> string" where
  "exn_class e = (case e of
       NameError _ \<Rightarrow> ''NameError''
     | ValueError _ \<Rightarrow> ''ValueError''
     | TypeError _ \<Rightarrow> ''TypeError''
     | IndexError _ \<Rightarrow> ''IndexError''
     | UnboundLocalError _ \<Rightarrow> ''UnboundLocalError''
     | ProviderError c _ \<Rightarrow> c)"

definition exn_message :: "pyerror \<Rightarrow> string" where
  "exn_message e = (case e of
       NameError m \<Rightarrow> m
     | ValueError m \<Rightarrow> m
     | TypeError m \<Rightarrow> m
     | IndexError m \<Rightarrow> m
     | UnboundLocalError m \<Rightarrow> m
     | ProviderError _ m \<Rightarrow> m)"

subsection \<open>float64 values\<close>

text \<open>
  Prices are numpy float64 values. The special values are modelled as IEEE 754 has them
  (\<open>0/0\<close>, \<open>inf - inf\<close> and every operation on \<open>NaN\<close> give \<open>NaN\<close>; a nonzero
  number divided by zero gives an infinity, pandas raising no error). Finite values are
  exact rationals: rounding is not modelled, and neither is the sign of zero. The theorems
  below either relate the result to the same expression over the same operations, or
  concern \<open>x - x\<close> and \<open>0 / x\<close>, which IEEE arithmetic computes exactly.
\<close>

datatype float64 = Finite rat | PInf | NInf | NaN

definition fneg :: "float64 \<Rightarrow> float64" where
  "fneg a = (case a of Finite x \<Rightarrow> Finite (- x) | PInf \<Rightarrow> NInf | NInf \<Rightarrow> PInf | NaN \<Rightarrow> NaN)"

definition fadd :: "float64 \<Rightarrow> float64 \<Rightarrow> float64" where
  "fadd a b = (case (a, b) of
       (NaN, _) \<Rightarrow> NaN
     | (_, NaN) \<Rightarrow> NaN
     | (Finite x, Finite y) \<Rightarrow> Finite (x + y)
     | (PInf, NInf) \<Rightarrow> NaN
     | (NInf, PInf) \<Rightarrow> NaN
     | (PInf, _) \<Rightarrow> PInf
     | (NInf, _) \<Rightarrow> NInf
     | (_, PInf) \<Rightarrow> PInf
     | (_, NInf) \<Rightarrow> NInf)"

definition fsub :: "float64 \<Rightarrow> float64 \<Rightarrow> float64" where
  "fsub a b = fadd a (fneg b)"

definition fsign :: "float64 \<Rightarrow> int" where
  "fsign a = (case a of
       Finite x \<Rightarrow> (if x < 0 then - 1 else if x = 0 then 0 else 1)
     | PInf \<Rightarrow> 1 | NInf \<Rightarrow> - 1 | NaN \<Rightarrow> 0)"

definition signed_inf :: "int \<Rightarrow> float64" where
  "signed_inf s = (if s < 0 then NInf else PInf)"

definition fmul :: "float64 \<Rightarrow> float64 \<Rightarrow> float64" where
  "fmul a b = (case (a, b) of
       (NaN, _) \<Rightarrow> NaN
     | (_, NaN) \<Rightarrow> NaN
     | (Finite x, Finite y) \<Rightarrow> Finite (x * y)
     | _ \<Rightarrow> (if fsign a * fsign b = 0 then NaN else signed_inf (fsign a * fsign b)))"

definition fdiv :: "float64 \<Rightarrow> float64 \<Rightarrow> float64" where
  "fdiv a b = (case (a, b) of
       (NaN, _) \<Rightarrow> NaN
     | (_, NaN) \<Rightarrow> NaN
     | (Finite x, Finite y) \<Rightarrow>
         (if y = 0 then (if x = 0 then NaN else signed_inf (fsign a)) else Finite (x / y))
     | (Finite x, _) \<Rightarrow> Finite 0
     | (_, Finite y) \<Rightarrow> signed_inf (fsign a * (if y < 0 then - 1 else 1))
     | _ \<Rightarrow> NaN)"

text \<open>Comparisons: every comparison with \<open>NaN\<close> is false.\<close>

definition fgt :: "float64 \<Rightarrow> float64 \<Rightarrow> bool" where
  "fgt a b = (case (a, b) of
       (NaN, _) \<Rightarrow> False
     | (_, NaN) \<Rightarrow> False
     | (Finite x, Finite y) \<Rightarrow> y < x
     | (PInf, PInf) \<Rightarrow> False
     | (PInf, _) \<Rightarrow> True
     | (_, NInf) \<Rightarrow> (a \<noteq> NInf)
     | _ \<Rightarrow> False)"

definition flt :: "float64 \<Rightarrow> float64 \<Rightarrow> bool" where
  "flt a b = fgt b a"

subsection \<open>Dates and \<^verbatim>\<open>datetime.datetime.strptime(s, "%Y-%m-%d")\<close>\<close>

text \<open>
  A date is year, month, day; \<^verbatim>\<open>strptime\<close> gives a datetime at midnight, so comparing
  two results compares the dates. The parser follows CPython's \<^verbatim>\<open>_strptime\<close>: the
  format compiles to the regular expression
  \<^verbatim>\<open>(\d\d\d\d)-(1[0-2]|0[1-9]|[1-9])-(3[01]|[12]\d|0[1-9]|[1-9]| [1-9])\<close>,
  the whole string must be consumed, and the date must exist (year at least 1, the day
  within the month). Every failure is a \<^verbatim>\<open>ValueError\<close>, here \<open>None\<close>. Strings are
  ASCII in this model.
\<close>

type_synonym ymd = "nat \<times> nat \<times> nat"

definition digit :: "char \<Rightarrow> nat option" where
  "digit c =
     map_of [(CHR ''0'', 0), (CHR ''1'', 1), (CHR ''2'', 2), (CHR ''3'', 3), (CHR ''4'', 4),
             (CHR ''5'', 5), (CHR ''6'', 6), (CHR ''7'', 7), (CHR ''8'', 8), (CHR ''9'', 9)] c"

definition year_field :: "string \<Rightarrow> nat option" where
  "year_field s = (case map digit s of
       [Some a, Some b, Some c, Some d] \<Rightarrow> Some (1000 * a + 100 * b + 10 * c + d)
     | _ \<Rightarrow> None)"

definition month_field :: "string \<Rightarrow> nat option" where
  "month_field s = (case s of
       [a] \<Rightarrow> (case digit a of Some x \<Rightarrow> (if 1 \<le> x then Some x else None) | None \<Rightarrow> None)
     | [a, b] \<Rightarrow> (case (digit a, digit b) of
           (Some x, Some y) \<Rightarrow>
             (if x = 1 \<and> y \<le> 2 then Some (10 + y)
              else if x = 0 \<and> 1 \<le> y then Some y
              else None)
         | _ \<Rightarrow> None)
     | _ \<Rightarrow> None)"

definition day_field :: "string \<Rightarrow> nat option" where
  "day_field s = (case s of
       [a] \<Rightarrow> (case digit a of Some x \<Rightarrow> (if 1 \<le> x then Some x else None) | None \<Rightarrow> None)
     | [a, b] \<Rightarrow> (case digit b of
           None \<Rightarrow> None
         | Some y \<Rightarrow>
            (if a = CHR '' '' then (if 1 \<le> y then Some y else None)
             else (case digit a of
                 None \<Rightarrow> None
               | Some x \<Rightarrow>
                  (if x = 3 \<and> y \<le> 1 then Some (30 + y)
                   else if x = 1 \<or> x = 2 then Some (10 * x + y)
                   else if x = 0 \<and> 1 \<le> y then Some y
                   else None))))
     | _ \<Rightarrow> None)"

definition is_leap :: "nat \<Rightarrow> bool" where
  "is_leap y = (y mod 4 = 0 \<and> (y mod 100 \<noteq> 0 \<or> y mod 400 = 0))"

definition days_in_month :: "nat \<Rightarrow> nat \<Rightarrow> nat" where
  "days_in_month y m =
     (if m = 2 then (if is_leap y then 29 else 28)
      else if m = 4 \<or> m = 6 \<or> m = 9 \<or> m = 11 then 30
      else 31)"

definition strptime :: "string \<Rightarrow> ymd option" where
  "strptime s =
     (case (year_field (take 4 s), drop 4 s) of
        (Some y, dash # rest) \<Rightarrow>
          (if dash \<noteq> CHR ''-'' then None
           else (case (month_field (takeWhile (\<lambda>c. c \<noteq> CHR ''-'') rest),
                       dropWhile (\<lambda>c. c \<noteq> CHR ''-'') rest) of
                   (Some m, _ # dd) \<Rightarrow>
                     (case day_field dd of
                        Some d \<Rightarrow> (if 1 \<le> y \<and> d \<le> days_in_month y m then Some (y, m, d) else None)
                      | None \<Rightarrow> None)
                 | _ \<Rightarrow> None))
      | _ \<Rightarrow> None)"

text \<open>The order of two datetimes at midnight: lexicographic on year, month, day.\<close>

definition datetime_less :: "ymd \<Rightarrow> ymd \<Rightarrow> bool" where
  "datetime_less a b = (case (a, b) of
     ((y1, m1, d1), (y2, m2, d2)) \<Rightarrow>
        y1 < y2 \<or> (y1 = y2 \<and> (m1 < m2 \<or> (m1 = m2 \<and> d1 < d2))))"

subsection \<open>The market-data provider\<close>

text \<open>
  One row of the table \<^verbatim>\<open>yf.download\<close> returns: the trading day (the index) and, for
  each requested ticker, the six columns. Volume is an int64 column: a 64-bit word, read
  as a signed number with \<open>sint\<close>.
\<close>

record quote =
  Open :: float64
  High :: float64
  Low :: float64
  Close :: float64
  Adj_Close :: float64
  Volume :: "64 word"

type_synonym raw_frame = "(ymd \<times> quote list) list"

text \<open>
  The provider (yfinance, pandas_datareader) is a parameter. Each of its entry points
  either raises (class name and message) or returns:
  \<^item> \<open>Ticker\<close>: the constructor \<^verbatim>\<open>yf.Ticker(x)\<close>, which makes no request;
  \<^item> \<open>info_regularMarketPrice\<close>: \<^verbatim>\<open>ticker.info["regularMarketPrice"]\<close>, a request to
    the provider; \<open>None\<close> is Python's \<^verbatim>\<open>None\<close>, the answer for a symbol that does not
    resolve;
  \<^item> \<open>download\<close>: \<^verbatim>\<open>yf.download(tickers, start=, end=)\<close>, one row per trading day
    and one quote per ticker;
  \<^item> \<open>get_data_yahoo\<close>: \<^verbatim>\<open>pdr.get_data_yahoo(ticker, start=, end=)\<close> for the single
    ticker \<^verbatim>\<open>volume_change\<close> is documented for, one quote per trading day.
  The provider answers the same question the same way throughout one call.
\<close>

type_synonym provider_exn = "string \<times> string"

record provider =
  Ticker :: "pyval \<Rightarrow> provider_exn + pyval"
  info_regularMarketPrice :: "pyval \<Rightarrow> provider_exn + float64 option"
  download :: "pyval \<Rightarrow> string \<Rightarrow> string \<Rightarrow> provider_exn + raw_frame"
  get_data_yahoo :: "pyval \<Rightarrow> string \<Rightarrow> string \<Rightarrow> provider_exn + (ymd \<times> quote) list"

subsection \<open>Effects: the log of requests and printed lines\<close>

datatype event =
    InfoRequest pyval
  | DownloadRequest pyval string string
  | GetDataRequest pyval string string
  | Printed string


text \<open>
  A computation takes the log so far and returns its outcome and the extended log.
\<close>

type_synonym 'a io = "event list \<Rightarrow> (pyerror + 'a) \<times> event list"

definition io_return :: "'a \<Rightarrow> 'a io" where
  "io_return x = (\<lambda>lg. (Inr x, lg))"

definition io_raise :: "pyerror \<Rightarrow> 'a io" where
  "io_raise e = (\<lambda>lg. (Inl e, lg))"

definition io_bind :: "'a io \<Rightarrow> ('a \<Rightarrow> 'b io) \<Rightarrow> 'b io" where
  "io_bind m f = (\<lambda>lg. case m lg of (Inl e, lg') \<Rightarrow> (Inl e, lg') | (Inr x, lg') \<Rightarrow> f x lg')"

definition io_log :: "event \<Rightarrow> unit io" where
  "io_log ev = (\<lambda>lg. (Inr (), lg @ [ev]))"

definition from_provider :: "provider_exn + 'a \<Rightarrow> 'a io" where
  "from_provider r = (case r of Inl (c, m) \<Rightarrow> io_raise (ProviderError c m) | Inr x \<Rightarrow> io_return x)"

definition yf_Ticker :: "provider \<Rightarrow> pyval \<Rightarrow> pyval io" where
  "yf_Ticker P x = from_provider (Ticker P x)"

definition ticker_info_regularMarketPrice :: "provider \<Rightarrow> pyval \<Rightarrow> float64 option io" where
  "ticker_info_regularMarketPrice P t =
     io_bind (io_log (InfoRequest t)) (\<lambda>_. from_provider (info_regularMarketPrice P t))"

definition yf_download :: "provider \<Rightarrow> pyval \<Rightarrow> string \<Rightarrow> string \<Rightarrow> raw_frame io" where
  "yf_download P t s e =
     io_bind (io_log (DownloadRequest t s e)) (\<lambda>_. from_provider (download P t s e))"

definition pdr_get_data_yahoo :: "provider \<Rightarrow> pyval \<Rightarrow> string \<Rightarrow> string \<Rightarrow> (ymd \<times> quote) list io" where
  "pdr_get_data_yahoo P t s e =
     io_bind (io_log (GetDataRequest t s e)) (\<lambda>_. from_provider (get_data_yahoo P t s e))"

subsection \<open>\<^verbatim>\<open>percent_change\<close>\<close>

text \<open>
  After \<^verbatim>\<open>data.drop(columns={'Open', 'High', 'Low', 'Adj Close', 'Volume'})\<close> the frame
  keeps the index and the Close column of every ticker. The frame \<^verbatim>\<open>percent_change\<close>
  returns has these columns under the label they are renamed to.
\<close>

type_synonym close_rows = "(ymd \<times> float64 list) list"

record pc_frame =
  column_label :: string
  pc_rows :: close_rows

definition drop_columns :: "raw_frame \<Rightarrow> close_rows" where
  "drop_columns data = map (\<lambda>(d, qs). (d, map Close qs)) data"

text \<open>
  \<^verbatim>\<open>(data.iloc[i,:] - data.iloc[0,:])/data.iloc[0,:]*100\<close>: the arithmetic of two rows
  of one frame is column by column.
\<close>

definition rebase :: "float64 list \<Rightarrow> float64 list \<Rightarrow> float64 list" where
  "rebase row row0 = map (\<lambda>(x, b). fmul (fdiv (fsub x b) b) (Finite 100)) (zip row row0)"

text \<open>
  \<^verbatim>\<open>data.iloc[i,:] = ...\<close> replaces the values of row \<open>i\<close> and leaves the index alone.
  Outside the frame \<^verbatim>\<open>iloc\<close> raises \<^verbatim>\<open>IndexError\<close>; the loop only visits rows that
  exist, and row 0 is checked where it is read.
\<close>

definition set_row :: "close_rows \<Rightarrow> nat \<Rightarrow> float64 list \<Rightarrow> close_rows" where
  "set_row data i vals = data[i := (fst (data ! i), vals)]"

definition iloc :: "close_rows \<Rightarrow> nat \<Rightarrow> pyerror + float64 list" where
  "iloc data i =
     (if i < length data then Inr (snd (data ! i))
      else Inl (IndexError ''single positional indexer is out-of-bounds''))"

text \<open>
  \<^verbatim>\<open>for i in range(1,len(data)): data.iloc[i,:] = (data.iloc[i,:] - data.iloc[0,:])/data.iloc[0,:]*100\<close>
\<close>

primrec rebase_rows :: "nat list \<Rightarrow> close_rows \<Rightarrow> close_rows" where
  "rebase_rows [] data = data"
| "rebase_rows (i # is) data =
     rebase_rows is (set_row data i (rebase (snd (data ! i)) (snd (data ! 0))))"

definition carry_out_calculation :: "close_rows \<Rightarrow> pyerror + close_rows" where
  "carry_out_calculation data =
     (let data1 = rebase_rows [1..<length data] data
      in case iloc data1 0 of
           Inl e \<Rightarrow> Inl e
         | Inr row0 \<Rightarrow> Inr (set_row data1 0 (rebase row0 row0)))"

definition percent_change :: "provider \<Rightarrow> pyval \<Rightarrow> string \<Rightarrow> string \<Rightarrow> pc_frame io" where
  "percent_change P stock_ticker start_date end_date =
     io_bind (yf_Ticker P stock_ticker) (\<lambda>ticker.
     io_bind (ticker_info_regularMarketPrice P ticker) (\<lambda>price.
       if price = None
       then io_raise (NameError ''You have entered an invalid stock ticker! Try again.'')
       else (case strptime start_date of
         None \<Rightarrow> io_raise (ValueError
           ''You have entered an invalid start date! Try date formatted in YYYY-MM-DD.'')
       | Some s \<Rightarrow> (case strptime end_date of
           None \<Rightarrow> io_raise (ValueError
             ''You have entered an invalid end date! Try date formatted in YYYY-MM-DD.'')
         | Some e \<Rightarrow>
             if datetime_less e s
             then io_raise (ValueError
               ''You have entered an end date which is earlier than the start date! Try again.'')
             else
               io_bind (yf_download P stock_ticker start_date end_date) (\<lambda>data.
                 case carry_out_calculation (drop_columns data) of
                   Inl err \<Rightarrow> io_raise err
                 | Inr data' \<Rightarrow>
                     io_return \<lparr>column_label = ''Price Change Percentage(%)'',
                                pc_rows = data'\<rparr>)))))"

subsection \<open>\<^verbatim>\<open>volume_change\<close>\<close>

text \<open>
  \<^verbatim>\<open>yf.pdr_override()\<close> makes \<^verbatim>\<open>pdr.get_data_yahoo\<close> the provider's own download; it
  requests nothing and leaves no trace in the model. Unlike \<^verbatim>\<open>percent_change\<close>, the
  function does not compare the two dates.
\<close>

text \<open>
  \<^verbatim>\<open>df['Volume'].diff()\<close>: the first entry has no predecessor and is \<open>NaN\<close>; every
  other entry is the difference to the row before. pandas subtracts the int64 values as
  they are, so the difference wraps around at 64 bits, and stores the result as float64.
  (The conversion rounds beyond \<open>2^53\<close>; it keeps the sign, which is all the labels
  read, so the model keeps the exact value.)
\<close>

fun series_diff :: "64 word list \<Rightarrow> float64 list" where
  "series_diff [] = []"
| "series_diff (v # vs) = NaN # map (\<lambda>(b, a). Finite (of_int (sint (b - a)))) (zip vs (v # vs))"

text \<open>
  \<^verbatim>\<open>np.select([dif > 0, dif < 0], ["Increase", "Decrease"], default = np.nan)\<close> takes,
  entry by entry, the choice of the first condition that holds and the default where none
  does. The result is an array of strings, so the default \<^verbatim>\<open>np.nan\<close> is stored as the
  string \<^verbatim>\<open>"nan"\<close>: this is the label for "undefined", and the string the check
  below compares with.
\<close>

primrec np_select :: "(bool \<times> string) list \<Rightarrow> string \<Rightarrow> string" where
  "np_select [] dflt = dflt"
| "np_select (c # cs) dflt = (if fst c then snd c else np_select cs dflt)"

definition volume_change_label :: "float64 \<Rightarrow> string" where
  "volume_change_label dif =
     np_select [(fgt dif (Finite 0), ''Increase''), (flt dif (Finite 0), ''Decrease'')] ''nan''"

text \<open>
  \<^verbatim>\<open>for indicator in df["Volume_Change"]: if(indicator != "Decrease" and indicator != "Increase" and indicator != "nan"): raise ValueError(...)\<close>
\<close>

primrec assert_indicators :: "string list \<Rightarrow> pyerror + unit" where
  "assert_indicators [] = Inr ()"
| "assert_indicators (indicator # rest) =
     (if indicator \<noteq> ''Decrease'' \<and> indicator \<noteq> ''Increase'' \<and> indicator \<noteq> ''nan''
      then Inl (ValueError ''Incorrect Volume Change indicator'')
      else assert_indicators rest)"

text \<open>The rows of the returned frame: Date, Volume, Volume\_Change.\<close>

type_synonym volume_frame = "(ymd \<times> 64 word \<times> string) list"

definition volume_change :: "provider \<Rightarrow> pyval \<Rightarrow> string \<Rightarrow> string \<Rightarrow> volume_frame io" where
  "volume_change P stock_ticker start_date end_date =
     io_bind (yf_Ticker P stock_ticker) (\<lambda>ticker.
     io_bind (ticker_info_regularMarketPrice P ticker) (\<lambda>price.
       if price = None
       then io_raise (NameError ''You have entered an invalid stock ticker! Try again.'')
       else (case strptime start_date of
         None \<Rightarrow> io_raise (ValueError ''You have entered an invalid start date! Try again.'')
       | Some _ \<Rightarrow> (case strptime end_date of
           None \<Rightarrow> io_raise (ValueError ''You have entered an invalid end date! Try again.'')
         | Some _ \<Rightarrow>
             io_bind (pdr_get_data_yahoo P stock_ticker start_date end_date) (\<lambda>fetched.
               let df = map (\<lambda>(d, q). (d, Volume q)) fetched;
                   Volume_dif = series_diff (map snd df);
                   Volume_Change = map volume_change_label Volume_dif
               in case assert_indicators Volume_Change of
                    Inl err \<Rightarrow> io_raise err
                  | Inr _ \<Rightarrow>
                      io_return (map (\<lambda>((d, v), c). (d, v, c)) (zip df Volume_Change)))))))"

text \<open>
  The frame \<^verbatim>\<open>volume_change\<close> builds from the fetched rows, written as one
  expression: \<^verbatim>\<open>df[['Date', 'Volume', 'Volume_Change']]\<close>.
\<close>

definition volume_rows :: "(ymd \<times> quote) list \<Rightarrow> volume_frame" where
  "volume_rows fetched =
     map (\<lambda>((d, v), c). (d, v, c))
       (zip (map (\<lambda>(d, q). (d, Volume q)) fetched)
            (map volume_change_label
               (series_diff (map snd (map (\<lambda>(d, q). (d, Volume q)) fetched)))))"

subsection \<open>\<^verbatim>\<open>profit_viz\<close>\<close>

text \<open>
  The table \<^verbatim>\<open>profit_df\<close>: its column index and its rows, each with the date, the
  values of the stock's columns and the values of the benchmark's columns. A frame of one
  ticker has a flat column index, a list of labels. A frame of several tickers has a
  two-level index (field, ticker); the model records that the index is of that kind and
  not its labels.
\<close>

datatype column_index = Flat_Index "string list" | Multi_Index

record profit_table =
  table_columns :: column_index
  table_rows :: "(ymd \<times> float64 list \<times> float64 list) list"

definition single_column :: "pc_frame \<Rightarrow> bool" where
  "single_column F = list_all (\<lambda>r. length (snd r) = 1) (pc_rows F)"

text \<open>
  \<^verbatim>\<open>pd.merge(stock_profit, benchmark_profit, on="Date")\<close>: no \<^verbatim>\<open>how\<close> is given, and
  the default is the inner join. Each left row is paired with every right row of the same
  date, in the order of the left rows. When both frames have one value column (one
  ticker each, what \<^verbatim>\<open>profit_viz\<close> is documented for), the result has the flat labels
  \<^verbatim>\<open>Date\<close> and the two value labels, which get the suffixes \<^verbatim>\<open>_x\<close> and \<^verbatim>\<open>_y\<close>
  when they are the same label. (\<^verbatim>\<open>reset_index()\<close> turns the index into the column
  \<^verbatim>\<open>Date\<close>; the rows of the model carry the date already.)
\<close>

definition pd_merge :: "pc_frame \<Rightarrow> pc_frame \<Rightarrow> profit_table" where
  "pd_merge left right =
     \<lparr>table_columns =
        (if single_column left \<and> single_column right
         then Flat_Index (''Date'' #
           (if column_label left = column_label right
            then [column_label left @ ''_x'', column_label right @ ''_y'']
            else [column_label left, column_label right]))
         else Multi_Index),
      table_rows =
        concat (map (\<lambda>(d, x). map (\<lambda>(d', y). (d, x, y))
                                  (filter (\<lambda>(d', y). d' = d) (pc_rows right)))
                    (pc_rows left))\<rparr>"

text \<open>
  \<^verbatim>\<open>profit_df.rename({...}, axis=1, inplace=True)\<close> replaces the flat labels that are keys
  of the mapping. Its keys here are suffixed flat labels, which a two-level index does
  not hold.
\<close>

definition rename :: "(string \<times> string) list \<Rightarrow> profit_table \<Rightarrow> profit_table" where
  "rename mapper df =
     df\<lparr>table_columns :=
          (case table_columns df of
             Flat_Index labels \<Rightarrow>
               Flat_Index (map (\<lambda>c. case map_of mapper c of Some c' \<Rightarrow> c' | None \<Rightarrow> c) labels)
           | Multi_Index \<Rightarrow> Multi_Index)\<rparr>"

text \<open>The chart object: the table it is built on and the encoding.\<close>

record chart =
  chart_data :: profit_table
  mark :: string
  transform_fold :: "string list"
  fold_as :: "string list"
  encode_x :: string
  encode_y :: string
  encode_color :: string
  color_domain :: "pyval list"
  color_range :: "string list"

definition io_try :: "'a io \<Rightarrow> (pyerror \<Rightarrow> 'a io) \<Rightarrow> 'a io" where
  "io_try m handler = (\<lambda>lg. case m lg of (Inl e, lg') \<Rightarrow> handler e lg' | (Inr x, lg') \<Rightarrow> (Inr x, lg'))"

text \<open>
  \<^verbatim>\<open>except (TypeError, ValueError, NameError) as err: print(err); raise\<close>
\<close>

definition print_and_reraise :: "pyerror \<Rightarrow> unit io" where
  "print_and_reraise err =
     (if exn_class err \<in> {''TypeError'', ''ValueError'', ''NameError''}
      then io_bind (io_log (Printed (exn_message err))) (\<lambda>_. io_raise err)
      else io_raise err)"

text \<open>
  The first \<^verbatim>\<open>try\<close> block of \<^verbatim>\<open>profit_viz\<close>: each ticker is looked up before its type
  is tested.
\<close>

definition profit_viz_checks ::
    "provider \<Rightarrow> pyval \<Rightarrow> pyval \<Rightarrow> pyval \<Rightarrow> pyval \<Rightarrow> string \<Rightarrow> string \<Rightarrow> unit io" where
  "profit_viz_checks P ticker bench_ticker stock_ticker benchmark_ticker start_date end_date =
     io_bind (ticker_info_regularMarketPrice P ticker) (\<lambda>price.
       if price = None
       then io_raise (NameError ''You have entered an invalid stock ticker! Try again.'')
       else if \<not> is_str stock_ticker
       then io_raise (TypeError ''stock_ticker should be of type string.'')
       else
     io_bind (ticker_info_regularMarketPrice P bench_ticker) (\<lambda>bench_price.
       if bench_price = None
       then io_raise (NameError ''You have entered an invalid benchmark ticker! Try again.'')
       else if \<not> is_str benchmark_ticker
       then io_raise (TypeError ''Bench Mark ticker should be of type string.'')
       else (case strptime start_date of
         None \<Rightarrow> io_raise (ValueError
           ''You have entered an invalid start date! Try date formatted in YYYY-MM-DD.'')
       | Some s \<Rightarrow> (case strptime end_date of
           None \<Rightarrow> io_raise (ValueError
             ''You have entered an invalid end date! Try date formatted in YYYY-MM-DD.'')
         | Some e \<Rightarrow>
             if datetime_less e s
             then io_raise (ValueError
               ''You have entered an end date which is earlier than the start date! Try again.'')
             else io_return ()))))"

text \<open>
  The second \<^verbatim>\<open>try\<close> block computes both series, merges and renames;
  \<^verbatim>\<open>except AttributeError: pass\<close> leaves \<^verbatim>\<open>profit_df\<close> unassigned, and the first
  statement after the block that reads it raises \<^verbatim>\<open>UnboundLocalError\<close>. The three
  \<^verbatim>\<open>isinstance\<close> statements discard their result and raise nothing.
\<close>

definition profit_df_of :: "provider \<Rightarrow> pyval \<Rightarrow> string \<Rightarrow> string \<Rightarrow> pyval \<Rightarrow> profit_table option io" where
  "profit_df_of P stock_ticker start_date end_date benchmark_ticker =
     io_try
       (io_bind (percent_change P stock_ticker start_date end_date) (\<lambda>stock_profit.
        io_bind (percent_change P benchmark_ticker start_date end_date) (\<lambda>benchmark_profit.
          io_return (Some (rename
            [(''Price Change Percentage(%)_x'', ''Profit Percent Stock''),
             (''Price Change Percentage(%)_y'', ''Profit Percent Benchmark'')]
            (pd_merge stock_profit benchmark_profit))))))
       (\<lambda>err. if exn_class err = ''AttributeError'' then io_return None else io_raise err)"

definition profit_viz :: "provider \<Rightarrow> pyval \<Rightarrow> string \<Rightarrow> string \<Rightarrow> pyval \<Rightarrow> chart io" where
  "profit_viz P stock_ticker start_date end_date benchmark_ticker =
     io_bind (yf_Ticker P stock_ticker) (\<lambda>ticker.
     io_bind (yf_Ticker P benchmark_ticker) (\<lambda>bench_ticker.
     io_bind (io_try
        (profit_viz_checks P ticker bench_ticker stock_ticker benchmark_ticker start_date end_date)
        print_and_reraise) (\<lambda>_.
     io_bind (profit_df_of P stock_ticker start_date end_date benchmark_ticker) (\<lambda>bound.
       case bound of
         None \<Rightarrow> io_raise (UnboundLocalError
           ''local variable 'profit_df' referenced before assignment'')
       | Some profit_df \<Rightarrow>
           io_return \<lparr>chart_data = profit_df,
                      mark = ''line'',
                      transform_fold = [''Profit Percent Stock'', ''Profit Percent Benchmark''],
                      fold_as = [''company'', ''Profit Percent''],
                      encode_x = ''Date:T'',
                      encode_y = ''Profit Percent:Q'',
                      encode_color = ''company:N'',
                      color_domain = [stock_ticker, benchmark_ticker],
                      color_range = [''red'', ''blue'']\<rparr>))))"

text \<open>
  The chart \<^verbatim>\<open>profit_viz\<close> returns for two series, written as one expression.
\<close>

definition profit_chart :: "pyval \<Rightarrow> pyval \<Rightarrow> pc_frame \<Rightarrow> pc_frame \<Rightarrow> chart" where
  "profit_chart stock_ticker benchmark_ticker stock_profit benchmark_profit =
     \<lparr>chart_data = rename
        [(''Price Change Percentage(%)_x'', ''Profit Percent Stock''),
         (''Price Change Percentage(%)_y'', ''Profit Percent Benchmark'')]
        (pd_merge stock_profit benchmark_profit),
      mark = ''line'',
      transform_fold = [''Profit Percent Stock'', ''Profit Percent Benchmark''],
      fold_as = [''company'', ''Profit Percent''],
      encode_x = ''Date:T'',
      encode_y = ''Profit Percent:Q'',
      encode_color = ''company:N'',
      color_domain = [stock_ticker, benchmark_ticker],
      color_range = [''red'', ''blue'']\<rparr>"


subsection \<open>A provider to run the functions on\<close>

text \<open>
  A small provider with fixed histories, for evaluating the functions on concrete
  arguments. Like yfinance it builds a ticker object from a string only
  (\<^verbatim>\<open>yf.Ticker\<close> calls \<^verbatim>\<open>ticker.upper()\<close>, an \<^verbatim>\<open>AttributeError\<close> on anything else),
  reports no market price for a symbol it does not know, and returns the trading days
  from the start date up to, not including, the end date. The history of \<open>ZRO\<close>
  starts with a close price of 0; the history of \<open>LIM\<close> holds the two volumes at the
  limits of int64.
\<close>

definition day_quote :: "rat \<Rightarrow> 64 word \<Rightarrow> quote" where
  "day_quote c v =
     \<lparr>Open = Finite c, High = Finite c, Low = Finite c, Close = Finite c,
      Adj_Close = Finite c, Volume = v\<rparr>"

definition demo_history :: "string \<Rightarrow> (ymd \<times> quote) list" where
  "demo_history name =
     (if name = ''AAPL'' then
        [((2020, 1, 2), day_quote 100 1000), ((2020, 1, 3), day_quote 99 2000),
         ((2020, 1, 6), day_quote 102 2000), ((2020, 1, 8), day_quote 104 1500)]
      else if name = ''SPY'' then
        [((2020, 1, 3), day_quote 400 500), ((2020, 1, 6), day_quote 404 700),
         ((2020, 1, 7), day_quote 398 600)]
      else if name = ''ZRO'' then
        [((2020, 1, 2), day_quote 0 10), ((2020, 1, 3), day_quote 2 30)]
      else if name = ''LIM'' then
        [((2020, 1, 2), day_quote 1 9223372036854775806),
         ((2020, 1, 3), day_quote 1 (- 9223372036854775808))]
      else [])"

definition demo_frame :: "string \<Rightarrow> raw_frame" where
  "demo_frame name =
     (if name = ''AAPL MSFT'' then
        [((2020, 1, 2), [day_quote 100 1000, day_quote 50 300]),
         ((2020, 1, 3), [day_quote 99 2000, day_quote 55 200]),
         ((2020, 1, 6), [day_quote 102 2000, day_quote 40 400])]
      else map (\<lambda>(d, q). (d, [q])) (demo_history name))"

definition in_range :: "string \<Rightarrow> string \<Rightarrow> ymd \<Rightarrow> bool" where
  "in_range start_date end_date d =
     (case (strptime start_date, strptime end_date) of
        (Some s, Some e) \<Rightarrow> \<not> datetime_less d s \<and> datetime_less d e
      | _ \<Rightarrow> False)"

definition demo_provider :: provider where
  "demo_provider =
     \<lparr>Ticker = (\<lambda>x. case x of
          Str name \<Rightarrow> Inr (Str name)
        | _ \<Rightarrow> Inl (''AttributeError'', ''object has no attribute upper'')),
      info_regularMarketPrice = (\<lambda>t. case t of
          Str name \<Rightarrow> Inr (if demo_frame name = [] then None else Some (Finite 1))
        | _ \<Rightarrow> Inr None),
      download = (\<lambda>t start_date end_date. case t of
          Str name \<Rightarrow> Inr (filter (\<lambda>(d, qs). in_range start_date end_date d) (demo_frame name))
        | _ \<Rightarrow> Inl (''AttributeError'', ''object has no attribute upper'')),
      get_data_yahoo = (\<lambda>t start_date end_date. case t of
          Str name \<Rightarrow> Inr (filter (\<lambda>(d, q). in_range start_date end_date d) (demo_history name))
        | _ \<Rightarrow> Inl (''AttributeError'', ''object has no attribute upper''))\<rparr>"

text \<open>
  The same provider with a constructor that accepts any value: its look-up still knows
  no market price for a value that is not a string.
\<close>

definition lenient_provider :: provider where
  "lenient_provider = demo_provider\<lparr>Ticker := Inr\<rparr>"

section \<open>Properties\<close>

subsection \<open>Running \<^verbatim>\<open>percent_change\<close>\<close>

lemmas io_defs = io_bind_def io_return_def io_raise_def io_log_def from_provider_def
  yf_Ticker_def ticker_info_regularMarketPrice_def yf_download_def pdr_get_data_yahoo_def
  io_try_def

lemma percent_change_run:
  "percent_change P t s e lg =
    (case Ticker P t of
       Inl x \<Rightarrow> (Inl (ProviderError (fst x) (snd x)), lg)
     | Inr h \<Rightarrow>
        (case info_regularMarketPrice P h of
           Inl x \<Rightarrow> (Inl (ProviderError (fst x) (snd x)), lg @ [InfoRequest h])
         | Inr None \<Rightarrow>
             (Inl (NameError ''You have entered an invalid stock ticker! Try again.''),
              lg @ [InfoRequest h])
         | Inr (Some p) \<Rightarrow>
            (case strptime s of
               None \<Rightarrow>
                 (Inl (ValueError
                    ''You have entered an invalid start date! Try date formatted in YYYY-MM-DD.''),
                  lg @ [InfoRequest h])
             | Some a \<Rightarrow>
                (case strptime e of
                   None \<Rightarrow>
                     (Inl (ValueError
                        ''You have entered an invalid end date! Try date formatted in YYYY-MM-DD.''),
                      lg @ [InfoRequest h])
                 | Some b \<Rightarrow>
                    if datetime_less b a
                    then (Inl (ValueError
                        ''You have entered an end date which is earlier than the start date! Try again.''),
                      lg @ [InfoRequest h])
                    else
                      (case download P t s e of
                         Inl x \<Rightarrow> (Inl (ProviderError (fst x) (snd x)),
                                   lg @ [InfoRequest h, DownloadRequest t s e])
                       | Inr data \<Rightarrow>
                          (case carry_out_calculation (drop_columns data) of
                             Inl err \<Rightarrow> (Inl err, lg @ [InfoRequest h, DownloadRequest t s e])
                           | Inr d \<Rightarrow>
                               (Inr \<lparr>column_label = ''Price Change Percentage(%)'', pc_rows = d\<rparr>,
                                lg @ [InfoRequest h, DownloadRequest t s e])))))))"
  by (simp add: percent_change_def io_defs case_prod_beta split: sum.splits option.splits)

lemma length_set_row: "length (set_row data i vals) = length data"
  by (simp add: set_row_def)

lemma length_rebase_rows: "length (rebase_rows is data) = length data"
  by (induction "is" arbitrary: data) (simp_all add: length_set_row)

lemma set_row_nth:
  "k < length data \<Longrightarrow> set_row data i vals ! k = (if k = i then (fst (data ! i), vals) else data ! k)"
  by (simp add: set_row_def)

lemma rebase_rows_nth:
  "distinct is \<Longrightarrow> 0 \<notin> set is \<Longrightarrow> \<forall>i\<in>set is. i < length data \<Longrightarrow> k < length data \<Longrightarrow>
   rebase_rows is data ! k =
     (if k \<in> set is then (fst (data ! k), rebase (snd (data ! k)) (snd (data ! 0))) else data ! k)"
proof (induction "is" arbitrary: data)
  case Nil
  then show ?case by simp
next
  case (Cons i "is")
  let ?d = "set_row data i (rebase (snd (data ! i)) (snd (data ! 0)))"
  have len: "length ?d = length data" by (rule length_set_row)
  have i0: "i \<noteq> 0" and ilt: "i < length data" using Cons.prems by auto
  have "0 < length data" using ilt by auto
  from set_row_nth[OF this] have zero: "?d ! 0 = data ! 0" using i0 by simp
  have ih: "rebase_rows is ?d ! k =
     (if k \<in> set is then (fst (?d ! k), rebase (snd (?d ! k)) (snd (?d ! 0))) else ?d ! k)"
    using Cons.IH[of ?d] Cons.prems by (simp add: len)
  show ?case
  proof (cases "k = i")
    case True
    then have "k \<notin> set is" using Cons.prems by auto
    then show ?thesis using ih True ilt by (simp add: set_row_nth)
  next
    case False
    then have "?d ! k = data ! k" using Cons.prems by (simp add: set_row_nth)
    then show ?thesis using ih zero False by simp
  qed
qed

lemma carry_out_calculation_eq:
  assumes "data \<noteq> []"
  shows "carry_out_calculation data = Inr (map (\<lambda>r. (fst r, rebase (snd r) (snd (data ! 0)))) data)"
proof -
  let ?d1 = "rebase_rows [1..<length data] data"
  have len1: "length ?d1 = length data" by (rule length_rebase_rows)
  have pos: "0 < length data" using assms by simp
  have nth1: "?d1 ! k = (if 0 < k then (fst (data ! k), rebase (snd (data ! k)) (snd (data ! 0))) else data ! k)"
    if "k < length data" for k
    using rebase_rows_nth[of "[1..<length data]" data k] that by auto
  have zero: "?d1 ! 0 = data ! 0" using nth1[of 0] pos by simp
  have "carry_out_calculation data = Inr (set_row ?d1 0 (rebase (snd (data ! 0)) (snd (data ! 0))))"
    using pos zero len1 by (auto simp add: carry_out_calculation_def iloc_def Let_def)
  moreover have "set_row ?d1 0 (rebase (snd (data ! 0)) (snd (data ! 0)))
      = map (\<lambda>r. (fst r, rebase (snd r) (snd (data ! 0)))) data"
  proof (rule nth_equalityI)
    show "length (set_row ?d1 0 (rebase (snd (data ! 0)) (snd (data ! 0))))
        = length (map (\<lambda>r. (fst r, rebase (snd r) (snd (data ! 0)))) data)"
      by (simp add: length_set_row length_rebase_rows)
  next
    fix k assume "k < length (set_row ?d1 0 (rebase (snd (data ! 0)) (snd (data ! 0))))"
    then have k: "k < length data" by (simp add: length_set_row length_rebase_rows)
    show "set_row ?d1 0 (rebase (snd (data ! 0)) (snd (data ! 0))) ! k
        = map (\<lambda>r. (fst r, rebase (snd r) (snd (data ! 0)))) data ! k"
      using k nth1[of k] zero by (simp add: set_row_nth length_rebase_rows)
  qed
  ultimately show ?thesis by simp
qed

lemma carry_out_calculation_empty:
  "carry_out_calculation [] = Inl (IndexError ''single positional indexer is out-of-bounds'')"
  by (simp add: carry_out_calculation_def iloc_def)

lemma carry_out_calculation_error:
  "carry_out_calculation data = Inl err \<Longrightarrow>
     data = [] \<and> err = IndexError ''single positional indexer is out-of-bounds''"
  by (cases "data = []") (simp_all add: carry_out_calculation_empty carry_out_calculation_eq)

lemma rebase_nth:
  "j < length row \<Longrightarrow> j < length row0 \<Longrightarrow>
   rebase row row0 ! j = fmul (fdiv (fsub (row ! j) (row0 ! j)) (row0 ! j)) (Finite 100)"
  by (simp add: rebase_def)

lemma rebase_self:
  "fmul (fdiv (fsub c c) c) (Finite 100) =
     (case c of Finite x \<Rightarrow> (if x = 0 then NaN else Finite 0) | _ \<Rightarrow> NaN)"
  by (cases c) (simp_all add: fmul_def fdiv_def fsub_def fadd_def fneg_def fsign_def signed_inf_def)

lemma drop_columns_nth:
  "i < length data \<Longrightarrow> drop_columns data ! i = (fst (data ! i), map Close (snd (data ! i)))"
  by (simp add: drop_columns_def split: prod.splits)

lemma length_drop_columns: "length (drop_columns data) = length data"
  by (simp add: drop_columns_def)

lemma percent_change_rows:
  assumes "Ticker P t = Inr h" "info_regularMarketPrice P h = Inr (Some p)"
    "strptime s = Some a" "strptime e = Some b" "\<not> datetime_less b a"
    "download P t s e = Inr data" "data \<noteq> []"
  shows "percent_change P t s e lg =
     (Inr \<lparr>column_label = ''Price Change Percentage(%)'',
           pc_rows = map (\<lambda>r. (fst r, rebase (snd r) (map Close (snd (data ! 0)))))
                         (drop_columns data)\<rparr>,
      lg @ [InfoRequest h, DownloadRequest t s e])"
proof -
  have ne: "drop_columns data \<noteq> []" using assms(7) by (simp add: drop_columns_def)
  have "0 < length data" using assms(7) by simp
  then have "snd (drop_columns data ! 0) = map Close (snd (data ! 0))"
    by (simp add: drop_columns_nth)
  then show ?thesis
    using assms(1-6) carry_out_calculation_eq[OF ne] by (simp add: percent_change_run)
qed

subsection \<open>Facts about the provider with fixed histories\<close>

lemmas strptime_eval = strptime_def year_field_def month_field_def day_field_def digit_def
  days_in_month_def is_leap_def

lemmas demo_eval = demo_provider_def demo_frame_def demo_history_def in_range_def

lemmas float64_eval = fmul_def fdiv_def fsub_def fadd_def fneg_def fsign_def signed_inf_def

lemma demo_Ticker: "Ticker demo_provider (Str name) = Inr (Str name)"
  by (simp add: demo_provider_def)

lemma demo_info:
  "info_regularMarketPrice demo_provider (Str ''AAPL'') = Inr (Some (Finite 1))"
  "info_regularMarketPrice demo_provider (Str ''SPY'') = Inr (Some (Finite 1))"
  "info_regularMarketPrice demo_provider (Str ''ZRO'') = Inr (Some (Finite 1))"
  "info_regularMarketPrice demo_provider (Str ''AAPL MSFT'') = Inr (Some (Finite 1))"
  "info_regularMarketPrice demo_provider (Str ''LIM'') = Inr (Some (Finite 1))"
  by (simp_all add: demo_eval)

lemma demo_dates:
  "strptime ''2020-01-01'' = Some (2020, 1, 1)"
  "strptime ''2020-02-01'' = Some (2020, 2, 1)"
  "strptime ''2020-01-04'' = Some (2020, 1, 4)"
  "strptime ''2020-01-05'' = Some (2020, 1, 5)"
  "strptime ''2020-01-08'' = Some (2020, 1, 8)"
  "strptime ''01-01-2020'' = None"
  by (simp_all add: strptime_eval)

lemma demo_download_two:
  "download demo_provider (Str ''AAPL MSFT'') ''2020-01-01'' ''2020-02-01''
     = Inr (demo_frame ''AAPL MSFT'')"
  by (simp add: demo_eval demo_dates datetime_less_def)

lemma demo_download_ZRO:
  "download demo_provider (Str ''ZRO'') ''2020-01-01'' ''2020-02-01'' = Inr (demo_frame ''ZRO'')"
  by (simp add: demo_eval demo_dates datetime_less_def)

lemma demo_download_weekend:
  "download demo_provider (Str ''AAPL'') ''2020-01-04'' ''2020-01-05'' = Inr []"
  by (simp add: demo_eval demo_dates datetime_less_def)

lemma demo_get_data_AAPL:
  "get_data_yahoo demo_provider (Str ''AAPL'') ''2020-01-01'' ''2020-02-01''
     = Inr (demo_history ''AAPL'')"
  by (simp add: demo_eval demo_dates datetime_less_def)

subsection \<open>The claims about \<^verbatim>\<open>percent_change\<close>\<close>

text \<open>
  C1. For a ticker that resolves and dates that parse with the end not before the start,
  \<^verbatim>\<open>percent_change\<close> returns a frame with one row per fetched row, and in every row
  \<open>i > 0\<close> the entry of every column \<open>j\<close> is
  \<open>(Close[i] - Close[0]) / Close[0] * 100\<close> over that column's own close prices, the
  \<open>Close[0]\<close> being the fetched one: row 0 is rebased last.
\<close>

theorem percent_change_formula:
  assumes "Ticker P t = Inr h" "info_regularMarketPrice P h = Inr (Some p)"
    "strptime s = Some a" "strptime e = Some b" "\<not> datetime_less b a"
    "download P t s e = Inr data"
    "0 < i" "i < length data" "j < length (snd (data ! i))" "j < length (snd (data ! 0))"
  shows "\<exists>F. fst (percent_change P t s e []) = Inr F \<and>
     length (pc_rows F) = length data \<and>
     fst (pc_rows F ! i) = fst (data ! i) \<and>
     snd (pc_rows F ! i) ! j =
       fmul (fdiv (fsub (Close (snd (data ! i) ! j)) (Close (snd (data ! 0) ! j)))
                  (Close (snd (data ! 0) ! j)))
            (Finite 100)"
proof -
  have ne: "data \<noteq> []" using assms(8) by auto
  let ?rows = "map (\<lambda>r. (fst r, rebase (snd r) (map Close (snd (data ! 0))))) (drop_columns data)"
  have run: "fst (percent_change P t s e []) =
      Inr \<lparr>column_label = ''Price Change Percentage(%)'', pc_rows = ?rows\<rparr>"
    using percent_change_rows[OF assms(1-6) ne, of "[]"] by simp
  have row: "?rows ! i = (fst (data ! i), rebase (map Close (snd (data ! i))) (map Close (snd (data ! 0))))"
    using assms(8) by (simp add: length_drop_columns drop_columns_nth)
  have cell: "rebase (map Close (snd (data ! i))) (map Close (snd (data ! 0))) ! j =
       fmul (fdiv (fsub (Close (snd (data ! i) ! j)) (Close (snd (data ! 0) ! j)))
                  (Close (snd (data ! 0) ! j)))
            (Finite 100)"
    using assms(9,10) by (simp add: rebase_nth)
  show ?thesis using run row cell by (simp add: length_drop_columns)
qed

theorem percent_change_formula_witness:
  "\<exists>F. fst (percent_change demo_provider (Str ''AAPL MSFT'') ''2020-01-01'' ''2020-02-01'' []) = Inr F \<and>
       length (pc_rows F) = 3 \<and>
       fst (pc_rows F ! 2) = (2020, 1, 6) \<and>
       snd (pc_rows F ! 2) ! 1 = Finite (- 20)"
proof -
  have range: "\<not> datetime_less (2020, 2, 1) (2020, 1, 1)" by (simp add: datetime_less_def)
  have frame: "demo_frame ''AAPL MSFT'' =
      [((2020, 1, 2), [day_quote 100 1000, day_quote 50 300]),
       ((2020, 1, 3), [day_quote 99 2000, day_quote 55 200]),
       ((2020, 1, 6), [day_quote 102 2000, day_quote 40 400])]"
    by (simp add: demo_frame_def)
  have v: "fmul (fdiv (fsub (Close (day_quote 40 400)) (Close (day_quote 50 300)))
                      (Close (day_quote 50 300))) (Finite 100) = Finite (- 20)"
    by (simp add: day_quote_def float64_eval)
  from percent_change_formula[OF demo_Ticker demo_info(4) demo_dates(1) demo_dates(2) range
      demo_download_two, of 2 1]
  obtain F where
    "fst (percent_change demo_provider (Str ''AAPL MSFT'') ''2020-01-01'' ''2020-02-01'' []) = Inr F"
    "length (pc_rows F) = 3" "fst (pc_rows F ! 2) = (2020, 1, 6)"
    "snd (pc_rows F ! 2) ! 1 = Finite (- 20)"
    by (auto simp add: frame v)
  then show ?thesis by blast
qed

text \<open>
  C5, as stated, fails: row 0 is computed as \<open>(Close[0] - Close[0]) / Close[0] * 100\<close>,
  which is \<open>0 / 0\<close> when the first close price is 0. The ticker \<open>ZRO\<close> of the
  provider above has such a history; its row 0 is \<open>NaN\<close>.
\<close>

theorem percent_change_first_row_counterexample:
  "fst (percent_change demo_provider (Str ''ZRO'') ''2020-01-01'' ''2020-02-01'' []) =
     Inr \<lparr>column_label = ''Price Change Percentage(%)'',
           pc_rows = [((2020, 1, 2), [NaN]), ((2020, 1, 3), [PInf])]\<rparr>"
proof -
  have range: "\<not> datetime_less (2020, 2, 1) (2020, 1, 1)" by (simp add: datetime_less_def)
  have frame: "demo_frame ''ZRO'' =
      [((2020, 1, 2), [day_quote 0 10]), ((2020, 1, 3), [day_quote 2 30])]"
    by (simp add: demo_frame_def demo_history_def)
  have ne: "demo_frame ''ZRO'' \<noteq> []" by (simp add: frame)
  show ?thesis
    unfolding percent_change_rows[OF demo_Ticker demo_info(3) demo_dates(1) demo_dates(2) range
        demo_download_ZRO ne]
    by (simp add: frame drop_columns_def rebase_def day_quote_def float64_eval)
qed

text \<open>
  C5, amended. When the fetched series is not empty, row 0 of the result is rebased too,
  and its entry in column \<open>j\<close> is exactly 0 whenever \<open>Close[0]\<close> of that column is
  a finite number other than 0; for a first close price of 0, an infinity or \<open>NaN\<close>
  the entry is \<open>NaN\<close>.
\<close>

theorem percent_change_first_row:
  assumes "Ticker P t = Inr h" "info_regularMarketPrice P h = Inr (Some p)"
    "strptime s = Some a" "strptime e = Some b" "\<not> datetime_less b a"
    "download P t s e = Inr data"
    "data \<noteq> []" "j < length (snd (data ! 0))"
  shows "\<exists>F. fst (percent_change P t s e []) = Inr F \<and>
     snd (pc_rows F ! 0) ! j =
       (case Close (snd (data ! 0) ! j) of
          Finite x \<Rightarrow> (if x = 0 then NaN else Finite 0)
        | _ \<Rightarrow> NaN)"
proof -
  let ?c0 = "map Close (snd (data ! 0))"
  let ?rows = "map (\<lambda>r. (fst r, rebase (snd r) ?c0)) (drop_columns data)"
  have pos: "0 < length data" using assms(7) by simp
  have run: "fst (percent_change P t s e []) =
      Inr \<lparr>column_label = ''Price Change Percentage(%)'', pc_rows = ?rows\<rparr>"
    using percent_change_rows[OF assms(1-7), of "[]"] by simp
  have row: "snd (?rows ! 0) = rebase ?c0 ?c0"
    using pos by (simp add: length_drop_columns drop_columns_nth)
  have "rebase ?c0 ?c0 ! j =
      fmul (fdiv (fsub (?c0 ! j) (?c0 ! j)) (?c0 ! j)) (Finite 100)"
    using assms(8) by (simp add: rebase_nth)
  also have "\<dots> = (case ?c0 ! j of Finite x \<Rightarrow> (if x = 0 then NaN else Finite 0) | _ \<Rightarrow> NaN)"
    by (rule rebase_self)
  finally have "snd (?rows ! 0) ! j =
      (case Close (snd (data ! 0) ! j) of Finite x \<Rightarrow> (if x = 0 then NaN else Finite 0) | _ \<Rightarrow> NaN)"
    using row assms(8) by simp
  then show ?thesis using run by simp
qed

theorem percent_change_first_row_witness:
  "\<exists>F. fst (percent_change demo_provider (Str ''AAPL MSFT'') ''2020-01-01'' ''2020-02-01'' []) = Inr F \<and>
       snd (pc_rows F ! 0) ! 1 = Finite 0"
proof -
  have range: "\<not> datetime_less (2020, 2, 1) (2020, 1, 1)" by (simp add: datetime_less_def)
  have frame: "demo_frame ''AAPL MSFT'' =
      [((2020, 1, 2), [day_quote 100 1000, day_quote 50 300]),
       ((2020, 1, 3), [day_quote 99 2000, day_quote 55 200]),
       ((2020, 1, 6), [day_quote 102 2000, day_quote 40 400])]"
    by (simp add: demo_frame_def)
  have ne: "demo_frame ''AAPL MSFT'' \<noteq> []" by (simp add: frame)
  have j: "1 < length (snd (demo_frame ''AAPL MSFT'' ! 0))" by (simp add: frame)
  show ?thesis
    using percent_change_first_row[OF demo_Ticker demo_info(4) demo_dates(1) demo_dates(2) range
        demo_download_two ne j]
    by (simp add: frame day_quote_def)
qed

text \<open>
  C10. When the provider returns an empty frame for a valid request, the loop does
  nothing and \<^verbatim>\<open>data.iloc[0,:]\<close> raises: \<^verbatim>\<open>percent_change\<close> fails with
  \<^verbatim>\<open>IndexError\<close> and returns no frame.
\<close>

theorem percent_change_empty_series:
  assumes "Ticker P t = Inr h" "info_regularMarketPrice P h = Inr (Some p)"
    "strptime s = Some a" "strptime e = Some b" "\<not> datetime_less b a"
    "download P t s e = Inr []"
  shows "fst (percent_change P t s e []) =
     Inl (IndexError ''single positional indexer is out-of-bounds'')"
  using assms
  by (simp add: percent_change_run drop_columns_def carry_out_calculation_empty)

theorem percent_change_empty_series_witness:
  "fst (percent_change demo_provider (Str ''AAPL'') ''2020-01-04'' ''2020-01-05'' []) =
     Inl (IndexError ''single positional indexer is out-of-bounds'')"
proof -
  have range: "\<not> datetime_less (2020, 1, 5) (2020, 1, 4)" by (simp add: datetime_less_def)
  show ?thesis
    by (rule percent_change_empty_series[OF demo_Ticker demo_info(1) demo_dates(3) demo_dates(4)
          range demo_download_weekend])
qed

text \<open>
  C9. For a ticker that resolves and two dates that parse, \<^verbatim>\<open>percent_change\<close> fails with
  the range error (the \<^verbatim>\<open>ValueError\<close> of the end date being earlier than the start
  date) exactly when the end date precedes the start date; equal dates raise no range
  error.
\<close>

theorem percent_change_range_error:
  assumes "Ticker P t = Inr h" "info_regularMarketPrice P h = Inr (Some p)"
    "strptime s = Some a" "strptime e = Some b"
  shows "(fst (percent_change P t s e []) =
            Inl (ValueError
              ''You have entered an end date which is earlier than the start date! Try again.''))
          = datetime_less b a
       \<and> (b = a \<longrightarrow>
            fst (percent_change P t s e []) \<noteq>
              Inl (ValueError
                ''You have entered an end date which is earlier than the start date! Try again.''))"
proof -
  let ?err = "Inl (ValueError
      ''You have entered an end date which is earlier than the start date! Try again.'')
      :: pyerror + pc_frame"
  have iff: "(fst (percent_change P t s e []) = ?err) = datetime_less b a"
  proof (cases "datetime_less b a")
    case True
    then show ?thesis using assms by (simp add: percent_change_run)
  next
    case False
    have "fst (percent_change P t s e []) \<noteq> ?err"
      using assms False
      by (auto simp add: percent_change_run split: sum.splits dest: carry_out_calculation_error)
    then show ?thesis using False by simp
  qed
  have irrefl: "\<not> datetime_less a a"
    by (cases a) (simp add: datetime_less_def)
  show ?thesis using iff irrefl by auto
qed

theorem percent_change_range_error_witness:
  "fst (percent_change demo_provider (Str ''AAPL'') ''2020-02-01'' ''2020-01-01'' []) =
     Inl (ValueError
       ''You have entered an end date which is earlier than the start date! Try again.'')
   \<and> fst (percent_change demo_provider (Str ''AAPL'') ''2020-01-01'' ''2020-01-01'' []) \<noteq>
     Inl (ValueError
       ''You have entered an end date which is earlier than the start date! Try again.'')"
  using percent_change_range_error[OF demo_Ticker demo_info(1) demo_dates(2) demo_dates(1)]
    percent_change_range_error[OF demo_Ticker demo_info(1) demo_dates(1) demo_dates(1)]
  by (simp add: datetime_less_def)

subsection \<open>Running \<^verbatim>\<open>volume_change\<close>\<close>

lemma volume_change_label_cases:
  "volume_change_label d \<in> {''Increase'', ''Decrease'', ''nan''}"
  by (simp add: volume_change_label_def)

lemma assert_indicators_labels:
  "assert_indicators (map volume_change_label ds) = Inr ()"
proof (induction ds)
  case Nil
  then show ?case by simp
next
  case (Cons d ds)
  then show ?case using volume_change_label_cases[of d] by auto
qed

lemma volume_change_run:
  "volume_change P t s e lg =
    (case Ticker P t of
       Inl x \<Rightarrow> (Inl (ProviderError (fst x) (snd x)), lg)
     | Inr h \<Rightarrow>
        (case info_regularMarketPrice P h of
           Inl x \<Rightarrow> (Inl (ProviderError (fst x) (snd x)), lg @ [InfoRequest h])
         | Inr None \<Rightarrow>
             (Inl (NameError ''You have entered an invalid stock ticker! Try again.''),
              lg @ [InfoRequest h])
         | Inr (Some p) \<Rightarrow>
            (case strptime s of
               None \<Rightarrow>
                 (Inl (ValueError ''You have entered an invalid start date! Try again.''),
                  lg @ [InfoRequest h])
             | Some a \<Rightarrow>
                (case strptime e of
                   None \<Rightarrow>
                     (Inl (ValueError ''You have entered an invalid end date! Try again.''),
                      lg @ [InfoRequest h])
                 | Some b \<Rightarrow>
                    (case get_data_yahoo P t s e of
                       Inl x \<Rightarrow> (Inl (ProviderError (fst x) (snd x)),
                                 lg @ [InfoRequest h, GetDataRequest t s e])
                     | Inr fetched \<Rightarrow>
                         (Inr (volume_rows fetched),
                          lg @ [InfoRequest h, GetDataRequest t s e]))))))"
  by (auto simp add: volume_change_def volume_rows_def io_defs assert_indicators_labels Let_def
        case_prod_beta split: sum.splits option.splits)

lemma length_series_diff: "length (series_diff vs) = length vs"
  by (cases vs) simp_all

lemma series_diff_nth:
  assumes "i < length vs"
  shows "series_diff vs ! i =
     (if i = 0 then NaN else Finite (of_int (sint (vs ! i - vs ! (i - 1)))))"
proof (cases vs)
  case Nil
  then show ?thesis using assms by simp
next
  case (Cons v rest)
  show ?thesis
  proof (cases i)
    case 0
    then show ?thesis using Cons by simp
  next
    case (Suc k)
    then have "k < length rest" using assms Cons by simp
    then show ?thesis using Cons Suc by simp
  qed
qed

lemma volume_change_label_NaN: "volume_change_label NaN = ''nan''"
  by (simp add: volume_change_label_def fgt_def flt_def)

lemma volume_change_label_int:
  "volume_change_label (Finite (of_int d)) =
     (if 0 < d then ''Increase'' else if d < 0 then ''Decrease'' else ''nan'')"
  by (simp add: volume_change_label_def fgt_def flt_def)

lemma volume_change_label_signed:
  "volume_change_label (Finite (signed (w :: 64 word))) =
     (if 0 < sint w then ''Increase'' else if sint w < 0 then ''Decrease'' else ''nan'')"
  using volume_change_label_int[of "sint w"] by simp

lemma length_volume_rows: "length (volume_rows fetched) = length fetched"
  by (simp add: volume_rows_def length_series_diff)

text \<open>
  Row \<open>i\<close> of the returned frame: the label reads the sign of the 64-bit difference.
\<close>

lemma volume_rows_nth:
  assumes "i < length fetched"
  shows "volume_rows fetched ! i =
     (fst (fetched ! i), Volume (snd (fetched ! i)),
      if i = 0 then ''nan''
      else if 0 < sint (Volume (snd (fetched ! i)) - Volume (snd (fetched ! (i - 1))))
        then ''Increase''
      else if sint (Volume (snd (fetched ! i)) - Volume (snd (fetched ! (i - 1)))) < 0
        then ''Decrease''
      else ''nan'')"
proof -
  let ?vs = "map snd (map (\<lambda>(d, q). (d, Volume q)) fetched)"
  have vs: "?vs ! k = Volume (snd (fetched ! k))" if "k < length fetched" for k
    using that by (simp add: split_beta)
  have "series_diff ?vs ! i =
      (if i = 0 then NaN else Finite (of_int (sint (?vs ! i - ?vs ! (i - 1)))))"
    using assms by (simp add: series_diff_nth)
  then have lab: "volume_change_label (series_diff ?vs ! i) =
      (if i = 0 then ''nan''
       else if 0 < sint (Volume (snd (fetched ! i)) - Volume (snd (fetched ! (i - 1))))
         then ''Increase''
       else if sint (Volume (snd (fetched ! i)) - Volume (snd (fetched ! (i - 1)))) < 0
         then ''Decrease''
       else ''nan'')"
    using assms vs[of i] vs[of "i - 1"]
    by (auto simp add: volume_change_label_NaN volume_change_label_signed)
  show ?thesis
    using assms lab by (simp add: volume_rows_def length_series_diff split_beta)
qed


text \<open>Volumes that are not negative cannot make the difference overflow.\<close>

lemma nonnegative_volumes_fit:
  fixes a b :: "64 word"
  assumes "0 \<le> sint a" "0 \<le> sint b"
  shows "- (2 ^ 63) \<le> sint b - sint a \<and> sint b - sint a < 2 ^ 63"
  using assms sint_lt[of a] sint_lt[of b] by simp


subsection \<open>The claims about \<^verbatim>\<open>volume_change\<close>\<close>




text \<open>
  C7. Every label \<^verbatim>\<open>volume_change\<close> produces is one of \<^verbatim>\<open>"Increase"\<close>,
  \<^verbatim>\<open>"Decrease"\<close> and \<^verbatim>\<open>"nan"\<close>, whatever the provider returns, and the check after
  the classification never raises its \<^verbatim>\<open>ValueError\<close>.
\<close>

theorem volume_change_indicator_check_unreachable:
  "fst (volume_change P t s e lg) \<noteq> Inl (ValueError ''Incorrect Volume Change indicator'')
   \<and> (\<forall>F. fst (volume_change P t s e lg) = Inr F \<longrightarrow>
         (\<forall>r \<in> set F. snd (snd r) \<in> {''Increase'', ''Decrease'', ''nan''}))"
proof
  show "fst (volume_change P t s e lg) \<noteq> Inl (ValueError ''Incorrect Volume Change indicator'')"
    by (simp add: volume_change_run split: sum.splits option.splits)
next
  have rows: "snd (snd r) \<in> {''Increase'', ''Decrease'', ''nan''}"
    if "r \<in> set (volume_rows fetched)" for r fetched
  proof -
    from that obtain i where i: "i < length fetched" and r: "r = volume_rows fetched ! i"
      by (auto simp add: in_set_conv_nth length_volume_rows)
    show ?thesis unfolding r volume_rows_nth[OF i] by simp
  qed
  show "\<forall>F. fst (volume_change P t s e lg) = Inr F \<longrightarrow>
         (\<forall>r \<in> set F. snd (snd r) \<in> {''Increase'', ''Decrease'', ''nan''})"
    using rows by (auto simp add: volume_change_run split: sum.splits option.splits if_splits)
qed

theorem volume_change_indicator_check_unreachable_witness:
  "\<exists>F. fst (volume_change demo_provider (Str ''AAPL'') ''2020-01-01'' ''2020-02-01'' []) = Inr F \<and>
       map (\<lambda>r. snd (snd r)) F = [''nan'', ''Increase'', ''nan'', ''Decrease''] \<and>
       (\<forall>r \<in> set F. snd (snd r) \<in> {''Increase'', ''Decrease'', ''nan''}) \<and>
       fst (volume_change demo_provider (Str ''AAPL'') ''2020-01-01'' ''2020-02-01'' []) \<noteq>
         Inl (ValueError ''Incorrect Volume Change indicator'')"
proof -
  have run: "fst (volume_change demo_provider (Str ''AAPL'') ''2020-01-01'' ''2020-02-01'' []) =
      Inr [((2020, 1, 2), 1000, ''nan''), ((2020, 1, 3), 2000, ''Increase''),
           ((2020, 1, 6), 2000, ''nan''), ((2020, 1, 8), 1500, ''Decrease'')]"
    by (simp add: volume_change_run demo_Ticker demo_info demo_dates demo_get_data_AAPL
          volume_rows_def demo_history_def day_quote_def volume_change_label_def fgt_def flt_def)
  from volume_change_indicator_check_unreachable[of demo_provider "Str ''AAPL''"
      "''2020-01-01''" "''2020-02-01''" "[]"]
  have "fst (volume_change demo_provider (Str ''AAPL'') ''2020-01-01'' ''2020-02-01'' []) \<noteq>
          Inl (ValueError ''Incorrect Volume Change indicator'')"
    and "\<forall>r \<in> set [((2020, 1, 2), 1000::64 word, ''nan''), ((2020, 1, 3), 2000, ''Increase''),
           ((2020, 1, 6), 2000, ''nan''), ((2020::nat, 1::nat, 8::nat), 1500, ''Decrease'')].
          snd (snd r) \<in> {''Increase'', ''Decrease'', ''nan''}"
    unfolding run by blast+
  then show ?thesis unfolding run by simp
qed

subsection \<open>Running \<^verbatim>\<open>profit_viz\<close>\<close>

lemma percent_change_Inr:
  assumes "fst (percent_change P t s e lg) = Inr F"
  obtains h p a b data where
    "Ticker P t = Inr h" "info_regularMarketPrice P h = Inr (Some p)"
    "strptime s = Some a" "strptime e = Some b" "\<not> datetime_less b a"
    "download P t s e = Inr data"
    "carry_out_calculation (drop_columns data) = Inr (pc_rows F)"
    "F = \<lparr>column_label = ''Price Change Percentage(%)'', pc_rows = pc_rows F\<rparr>"
  using assms
  by (auto simp add: percent_change_run split: sum.splits option.splits if_splits)

lemma percent_change_returns:
  assumes "Ticker P t = Inr h" "info_regularMarketPrice P h = Inr (Some p)"
    "strptime s = Some a" "strptime e = Some b" "\<not> datetime_less b a"
    "download P t s e = Inr data"
    "carry_out_calculation (drop_columns data) = Inr rows"
  shows "percent_change P t s e lg =
     (Inr \<lparr>column_label = ''Price Change Percentage(%)'', pc_rows = rows\<rparr>,
      lg @ [InfoRequest h, DownloadRequest t s e])"
  using assms by (simp add: percent_change_run)

lemma profit_viz_checks_pass:
  assumes "info_regularMarketPrice P h = Inr (Some p)" "is_str stock_ticker"
    "info_regularMarketPrice P hb = Inr (Some pb)" "is_str benchmark_ticker"
    "strptime s = Some a" "strptime e = Some b" "\<not> datetime_less b a"
  shows "profit_viz_checks P h hb stock_ticker benchmark_ticker s e lg =
     (Inr (), lg @ [InfoRequest h, InfoRequest hb])"
  using assms by (simp add: profit_viz_checks_def io_defs)

lemma profit_viz_returns:
  assumes "is_str st" "is_str bt"
    "fst (percent_change P st s e []) = Inr sp" "fst (percent_change P bt s e []) = Inr bp"
  shows "fst (profit_viz P st s e bt lg) = Inr (profit_chart st bt sp bp)"
proof -
  from assms(3) obtain h p a b data where st:
    "Ticker P st = Inr h" "info_regularMarketPrice P h = Inr (Some p)"
    "strptime s = Some a" "strptime e = Some b" "\<not> datetime_less b a"
    "download P st s e = Inr data"
    "carry_out_calculation (drop_columns data) = Inr (pc_rows sp)"
    "sp = \<lparr>column_label = ''Price Change Percentage(%)'', pc_rows = pc_rows sp\<rparr>"
    by (rule percent_change_Inr)
  from assms(4) obtain hb pb a' b' datab where bt:
    "Ticker P bt = Inr hb" "info_regularMarketPrice P hb = Inr (Some pb)"
    "strptime s = Some a'" "strptime e = Some b'" "\<not> datetime_less b' a'"
    "download P bt s e = Inr datab"
    "carry_out_calculation (drop_columns datab) = Inr (pc_rows bp)"
    "bp = \<lparr>column_label = ''Price Change Percentage(%)'', pc_rows = pc_rows bp\<rparr>"
    by (rule percent_change_Inr)
  have checks: "profit_viz_checks P h hb st bt s e lg' = (Inr (), lg' @ [InfoRequest h, InfoRequest hb])"
    for lg'
    by (rule profit_viz_checks_pass[OF st(2) assms(1) bt(2) assms(2) st(3,4,5)])
  have run_s: "percent_change P st s e lg' = (Inr sp, lg' @ [InfoRequest h, DownloadRequest st s e])"
    for lg'
    using percent_change_returns[OF st(1-7), of lg'] st(8) by simp
  have run_b: "percent_change P bt s e lg' = (Inr bp, lg' @ [InfoRequest hb, DownloadRequest bt s e])"
    for lg'
    using percent_change_returns[OF bt(1-7), of lg'] bt(8) by simp
  show ?thesis
    by (simp add: profit_viz_def profit_df_of_def profit_chart_def io_defs st(1) bt(1)
          checks run_s run_b)
qed

lemma pd_merge_rows:
  "((d, x, y) \<in> set (table_rows (pd_merge left right))) =
     ((d, x) \<in> set (pc_rows left) \<and> (d, y) \<in> set (pc_rows right))"
proof
  assume "(d, x, y) \<in> set (table_rows (pd_merge left right))"
  then show "(d, x) \<in> set (pc_rows left) \<and> (d, y) \<in> set (pc_rows right)"
    by (auto simp add: pd_merge_def)
next
  let ?pair = "\<lambda>(d, x). map (\<lambda>(d', y). (d, x, y)) (filter (\<lambda>(d', y). d' = d) (pc_rows right))"
  assume a: "(d, x) \<in> set (pc_rows left) \<and> (d, y) \<in> set (pc_rows right)"
  then have "(d, x, y) \<in> set (?pair (d, x))"
    by force
  moreover have "?pair (d, x) \<in> set (map ?pair (pc_rows left))"
    using a by (simp only: set_map) (rule imageI, simp)
  ultimately have "(d, x, y) \<in> set (concat (map ?pair (pc_rows left)))"
    unfolding set_concat by (rule UN_I[rotated])
  then show "(d, x, y) \<in> set (table_rows (pd_merge left right))"
    by (simp add: pd_merge_def)
qed

lemma rename_rows: "table_rows (rename mapper df) = table_rows df"
  by (simp add: rename_def)

lemma pd_merge_dates:
  "fst ` set (table_rows (pd_merge left right)) =
     fst ` set (pc_rows left) \<inter> fst ` set (pc_rows right)"
proof (rule set_eqI)
  fix d
  have "d \<in> fst ` set (table_rows (pd_merge left right)) \<longleftrightarrow>
      (\<exists>x y. (d, x, y) \<in> set (table_rows (pd_merge left right)))"
    by force
  also have "\<dots> \<longleftrightarrow> (\<exists>x. (d, x) \<in> set (pc_rows left)) \<and> (\<exists>y. (d, y) \<in> set (pc_rows right))"
    by (auto simp add: pd_merge_rows)
  also have "\<dots> \<longleftrightarrow> d \<in> fst ` set (pc_rows left) \<inter> fst ` set (pc_rows right)"
    by force
  finally show "d \<in> fst ` set (table_rows (pd_merge left right)) \<longleftrightarrow>
      d \<in> fst ` set (pc_rows left) \<inter> fst ` set (pc_rows right)" .
qed

lemma percent_change_label:
  "fst (percent_change P t s e lg) = Inr F \<Longrightarrow> column_label F = ''Price Change Percentage(%)''"
  by (erule percent_change_Inr) (cases F, simp)

lemma demo_download_AAPL:
  "download demo_provider (Str ''AAPL'') ''2020-01-01'' ''2020-01-08'' =
     Inr [((2020, 1, 2), [day_quote 100 1000]), ((2020, 1, 3), [day_quote 99 2000]),
          ((2020, 1, 6), [day_quote 102 2000])]"
  by (simp add: demo_eval demo_dates datetime_less_def)

lemma demo_download_SPY:
  "download demo_provider (Str ''SPY'') ''2020-01-01'' ''2020-01-08'' =
     Inr [((2020, 1, 3), [day_quote 400 500]), ((2020, 1, 6), [day_quote 404 700]),
          ((2020, 1, 7), [day_quote 398 600])]"
  by (simp add: demo_eval demo_dates datetime_less_def)

lemma demo_percent_change_AAPL:
  "fst (percent_change demo_provider (Str ''AAPL'') ''2020-01-01'' ''2020-01-08'' []) =
     Inr \<lparr>column_label = ''Price Change Percentage(%)'',
           pc_rows = [((2020, 1, 2), [Finite 0]), ((2020, 1, 3), [Finite (- 1)]),
                      ((2020, 1, 6), [Finite 2])]\<rparr>"
proof -
  have range: "\<not> datetime_less (2020, 1, 8) (2020, 1, 1)" by (simp add: datetime_less_def)
  show ?thesis
    unfolding percent_change_rows[OF demo_Ticker demo_info(1) demo_dates(1) demo_dates(5) range
        demo_download_AAPL, simplified]
    by (simp add: drop_columns_def rebase_def day_quote_def float64_eval)
qed

lemma demo_percent_change_SPY:
  "fst (percent_change demo_provider (Str ''SPY'') ''2020-01-01'' ''2020-01-08'' []) =
     Inr \<lparr>column_label = ''Price Change Percentage(%)'',
           pc_rows = [((2020, 1, 3), [Finite 0]), ((2020, 1, 6), [Finite 1]),
                      ((2020, 1, 7), [Finite (- 1 / 2)])]\<rparr>"
proof -
  have range: "\<not> datetime_less (2020, 1, 8) (2020, 1, 1)" by (simp add: datetime_less_def)
  show ?thesis
    unfolding percent_change_rows[OF demo_Ticker demo_info(2) demo_dates(1) demo_dates(5) range
        demo_download_SPY, simplified]
    by (simp add: drop_columns_def rebase_def day_quote_def float64_eval)
qed

subsection \<open>The claims about \<^verbatim>\<open>profit_viz\<close>\<close>

text \<open>
  C3. When both tickers are strings and \<^verbatim>\<open>percent_change\<close> returns a series for each,
  \<^verbatim>\<open>profit_viz\<close> returns a chart, and the dates of the table it is built on are exactly
  the dates present in both series. The witness is the scenario of stock dates
  \<open>{d1, d2, d3}\<close> and benchmark dates \<open>{d2, d3, d4}\<close>.
\<close>

theorem profit_viz_table_dates:
  assumes "is_str st" "is_str bt"
    "fst (percent_change P st s e []) = Inr sp" "fst (percent_change P bt s e []) = Inr bp"
  shows "\<exists>ch. fst (profit_viz P st s e bt []) = Inr ch \<and>
     fst ` set (table_rows (chart_data ch)) = fst ` set (pc_rows sp) \<inter> fst ` set (pc_rows bp)"
  using profit_viz_returns[OF assms, of "[]"]
  by (simp add: profit_chart_def rename_rows pd_merge_dates)

theorem profit_viz_table_dates_witness:
  "\<exists>ch. fst (profit_viz demo_provider (Str ''AAPL'') ''2020-01-01'' ''2020-01-08'' (Str ''SPY'') [])
          = Inr ch \<and>
        fst ` set (table_rows (chart_data ch)) = {(2020, 1, 3), (2020, 1, 6)}"
proof -
  have str: "is_str (Str ''AAPL'')" "is_str (Str ''SPY'')" by (simp_all add: is_str_def)
  from profit_viz_table_dates[OF str demo_percent_change_AAPL demo_percent_change_SPY]
  obtain ch where
    "fst (profit_viz demo_provider (Str ''AAPL'') ''2020-01-01'' ''2020-01-08'' (Str ''SPY'') [])
       = Inr ch"
    "fst ` set (table_rows (chart_data ch)) =
       {(2020, 1, 2), (2020, 1, 3), (2020, 1, 6)} \<inter> {(2020, 1, 3), (2020, 1, 6), (2020, 1, 7)}"
    by auto
  moreover have "{(2020, 1, 2), (2020, 1, 3), (2020, 1, 6)} \<inter> {(2020, 1, 3), (2020, 1, 6), (2020, 1, 7)}
      = {(2020::nat, 1::nat, 3::nat), (2020, 1, 6)}"
    by auto
  ultimately show ?thesis by auto
qed


lemma demo_single_column:
  "single_column \<lparr>column_label = ''Price Change Percentage(%)'',
      pc_rows = [((2020, 1, 2), [Finite 0]), ((2020, 1, 3), [Finite (- 1)]),
                 ((2020, 1, 6), [Finite 2])]\<rparr>"
  "single_column \<lparr>column_label = ''Price Change Percentage(%)'',
      pc_rows = [((2020, 1, 3), [Finite 0]), ((2020, 1, 6), [Finite 1]),
                 ((2020, 1, 7), [Finite (- 1 / 2)])]\<rparr>"
  by (simp_all add: single_column_def)

lemma demo_download_two_week:
  "download demo_provider (Str ''AAPL MSFT'') ''2020-01-01'' ''2020-01-08''
     = Inr (demo_frame ''AAPL MSFT'')"
  by (simp add: demo_eval demo_dates datetime_less_def)

lemma demo_percent_change_two:
  "fst (percent_change demo_provider (Str ''AAPL MSFT'') ''2020-01-01'' ''2020-01-08'' []) =
     Inr \<lparr>column_label = ''Price Change Percentage(%)'',
           pc_rows = [((2020, 1, 2), [Finite 0, Finite 0]),
                      ((2020, 1, 3), [Finite (- 1), Finite 10]),
                      ((2020, 1, 6), [Finite 2, Finite (- 20)])]\<rparr>"
proof -
  have range: "\<not> datetime_less (2020, 1, 8) (2020, 1, 1)" by (simp add: datetime_less_def)
  have ne: "demo_frame ''AAPL MSFT'' \<noteq> []" by (simp add: demo_frame_def)
  show ?thesis
    unfolding percent_change_rows[OF demo_Ticker demo_info(4) demo_dates(1) demo_dates(5) range
        demo_download_two_week ne]
    by (simp add: demo_frame_def drop_columns_def rebase_def day_quote_def float64_eval)
qed

text \<open>
  C4, as stated, fails: the table is not the outer join. In the scenario above the stock
  series has the date 2020-01-02 and the benchmark series the date 2020-01-07; neither
  is a row of the table. Nor are the percent-change columns always renamed: for the two
  tickers \<open>AAPL MSFT\<close> the series has two columns under a two-level index, which is
  not the flat index of \<^verbatim>\<open>Date\<close> and the two renamed columns.
\<close>

theorem profit_viz_outer_join_counterexample:
  "map_sum id pc_rows
     (fst (percent_change demo_provider (Str ''AAPL'') ''2020-01-01'' ''2020-01-08'' [])) =
     Inr [((2020, 1, 2), [Finite 0]), ((2020, 1, 3), [Finite (- 1)]), ((2020, 1, 6), [Finite 2])]
   \<and> map_sum id chart_data
     (fst (profit_viz demo_provider (Str ''AAPL'') ''2020-01-01'' ''2020-01-08'' (Str ''SPY'') [])) =
     Inr \<lparr>table_columns =
             Flat_Index [''Date'', ''Profit Percent Stock'', ''Profit Percent Benchmark''],
           table_rows = [((2020, 1, 3), [Finite (- 1)], [Finite 0]),
                         ((2020, 1, 6), [Finite 2], [Finite 1])]\<rparr>
   \<and> map_sum id (\<lambda>ch. table_columns (chart_data ch))
     (fst (profit_viz demo_provider (Str ''AAPL MSFT'') ''2020-01-01'' ''2020-01-08''
        (Str ''SPY'') [])) =
     Inr Multi_Index"
proof -
  have str: "is_str (Str ''AAPL'')" "is_str (Str ''SPY'')" "is_str (Str ''AAPL MSFT'')"
    by (simp_all add: is_str_def)
  show ?thesis
    unfolding profit_viz_returns[OF str(1,2) demo_percent_change_AAPL demo_percent_change_SPY]
      profit_viz_returns[OF str(3,2) demo_percent_change_two demo_percent_change_SPY]
      demo_percent_change_AAPL
    by (simp add: profit_chart_def rename_def pd_merge_def single_column_def)
qed

text \<open>
  C4, amended. The table is the inner join on Date of the two series: a row with date
  \<open>d\<close>, stock values \<open>x\<close> and benchmark values \<open>y\<close> is in the table exactly when
  \<open>(d, x)\<close> is a row of the stock series and \<open>(d, y)\<close> a row of the benchmark
  series, so a date appears only if both series have it. When each series has one
  percent-change column (one ticker each), the table has the columns \<^verbatim>\<open>Date\<close>,
  \<^verbatim>\<open>Profit Percent Stock\<close> and \<^verbatim>\<open>Profit Percent Benchmark\<close>: the two percent-change
  columns renamed.
\<close>

theorem profit_viz_table_inner_join:
  assumes "is_str st" "is_str bt"
    "fst (percent_change P st s e []) = Inr sp" "fst (percent_change P bt s e []) = Inr bp"
  shows "\<exists>ch. fst (profit_viz P st s e bt []) = Inr ch \<and>
     (\<forall>d x y. ((d, x, y) \<in> set (table_rows (chart_data ch))) =
        ((d, x) \<in> set (pc_rows sp) \<and> (d, y) \<in> set (pc_rows bp))) \<and>
     (single_column sp \<and> single_column bp \<longrightarrow>
        table_columns (chart_data ch) =
          Flat_Index [''Date'', ''Profit Percent Stock'', ''Profit Percent Benchmark''])"
proof -
  have labels: "column_label sp = ''Price Change Percentage(%)''"
      "column_label bp = ''Price Change Percentage(%)''"
    using assms(3,4) by (auto dest: percent_change_label)
  have cols: "table_columns (chart_data (profit_chart st bt sp bp)) =
      Flat_Index [''Date'', ''Profit Percent Stock'', ''Profit Percent Benchmark'']"
    if "single_column sp" "single_column bp"
    using that by (simp add: profit_chart_def rename_def pd_merge_def labels)
  have rows: "table_rows (chart_data (profit_chart st bt sp bp)) = table_rows (pd_merge sp bp)"
    by (simp add: profit_chart_def rename_rows)
  show ?thesis
    using profit_viz_returns[OF assms, of "[]"] cols rows by (simp add: pd_merge_rows)
qed

theorem profit_viz_table_inner_join_witness:
  "\<exists>ch. fst (profit_viz demo_provider (Str ''AAPL'') ''2020-01-01'' ''2020-01-08'' (Str ''SPY'') [])
          = Inr ch \<and>
        table_columns (chart_data ch) =
          Flat_Index [''Date'', ''Profit Percent Stock'', ''Profit Percent Benchmark''] \<and>
        ((2020, 1, 6), [Finite 2], [Finite 1]) \<in> set (table_rows (chart_data ch)) \<and>
        ((2020, 1, 2), [Finite 0], [Finite 0]) \<notin> set (table_rows (chart_data ch))"
proof -
  have str: "is_str (Str ''AAPL'')" "is_str (Str ''SPY'')" by (simp_all add: is_str_def)
  from profit_viz_table_inner_join[OF str demo_percent_change_AAPL demo_percent_change_SPY]
    demo_single_column
  show ?thesis by auto
qed

text \<open>
  The \<^verbatim>\<open>TypeError\<close> of \<^verbatim>\<open>profit_viz\<close> is raised only for a ticker that the provider
  has already built a ticker object for and resolved to a market price.
\<close>

lemma profit_viz_TypeError_after_lookup:
  assumes "fst (profit_viz P st s e bt lg) = Inl (TypeError m)"
  shows "\<exists>h p. Ticker P st = Inr h \<and> info_regularMarketPrice P h = Inr (Some p)"
proof (cases "Ticker P st")
  case (Inl x)
  then show ?thesis using assms by (simp add: profit_viz_def io_defs case_prod_beta)
next
  case st: (Inr h)
  show ?thesis
  proof (cases "Ticker P bt")
    case (Inl x)
    then show ?thesis using assms st by (simp add: profit_viz_def io_defs case_prod_beta)
  next
    case bt: (Inr hb)
    show ?thesis
    proof (cases "info_regularMarketPrice P h")
      case (Inl x)
      then show ?thesis
        using assms st bt
        by (simp add: profit_viz_def profit_viz_checks_def print_and_reraise_def io_defs
              case_prod_beta exn_class_def split: if_splits)
    next
      case (Inr price)
      show ?thesis
      proof (cases price)
        case None
        then show ?thesis
          using assms st bt Inr
          by (simp add: profit_viz_def profit_viz_checks_def print_and_reraise_def io_defs
                exn_class_def)
      next
        case (Some p)
        then show ?thesis using st Inr by simp
      qed
    qed
  qed
qed

text \<open>
  C8 fails on the code. \<^verbatim>\<open>profit_viz\<close> builds both ticker objects and looks the ticker up
  before it tests \<^verbatim>\<open>type(stock_ticker) != str\<close>, so a ticker that is not a string never
  reaches the test: the call fails in the constructor (\<^verbatim>\<open>AttributeError\<close>, as yfinance
  raises it), and with a constructor that accepted the value it would fail with the
  \<^verbatim>\<open>NameError\<close> of the look-up. The \<^verbatim>\<open>TypeError\<close> is raised only for a ticker the
  provider has resolved to a market price.
\<close>

theorem profit_viz_non_string_ticker:
  "fst (profit_viz demo_provider (IntVal 123) ''2020-01-01'' ''2020-01-08'' (Str ''SPY'') []) =
     Inl (ProviderError ''AttributeError'' ''object has no attribute upper'')
   \<and> fst (profit_viz demo_provider (Str ''AAPL'') ''2020-01-01'' ''2020-01-08'' (IntVal 123) []) =
     Inl (ProviderError ''AttributeError'' ''object has no attribute upper'')
   \<and> fst (profit_viz lenient_provider (IntVal 123) ''2020-01-01'' ''2020-01-08'' (Str ''SPY'') []) =
     Inl (NameError ''You have entered an invalid stock ticker! Try again.'')
   \<and> fst (profit_viz lenient_provider (Str ''AAPL'') ''2020-01-01'' ''2020-01-08'' (IntVal 123) []) =
     Inl (NameError ''You have entered an invalid benchmark ticker! Try again.'')"
  by (simp add: profit_viz_def profit_viz_checks_def print_and_reraise_def io_defs
        lenient_provider_def demo_eval exn_class_def is_str_def)


subsection \<open>Validation and the requests to the provider\<close>












end
